theory Spec2Isabelle
  imports Complex_Main "HOL-Library.Sublist"
begin

section \<open>The emotion detector web application\<close>

text \<open>
  A shallow embedding of \<^verbatim>\<open>app.py\<close> (the Flask request handlers) and
  \<^verbatim>\<open>helpers.py\<close> (the two adapters around DeepFace and Ollama).

  Python strings are \<^typ>\<open>string\<close>. A Python float is modelled by the rational number it
  denotes (every finite float is one); NaN, the infinities and the negative zero have no
  counterpart here. The Flask session, a dict with the keys \<^verbatim>\<open>username\<close> and
  \<^verbatim>\<open>emotion_history\<close>, is a record of two optional fields: \<open>None\<close> is an absent key.
  Exceptions are values of type \<open>exn\<close>, and a computation that may raise returns
  \<open>exn + 'a\<close>. The external collaborators (DeepFace, Ollama, OpenCV, the file system, the
  clock, the uuid generator) are fields of an environment record that say what each
  call answers for the request at hand; the calls made are logged in the state.
\<close>

subsection \<open>Data\<close>

text \<open>The exceptions the handlers can meet: \<^verbatim>\<open>results[0]\<close> on an empty list, a missing
  dict key, and whatever an external library raises (with its message).\<close>

datatype exn =
    IndexError
  | KeyError string
  | LibraryError string

text \<open>The bounding box \<^verbatim>\<open>{x, y, w, h}\<close> of a face, and one element of the list that
  \<^verbatim>\<open>DeepFace.analyze\<close> returns: the keys \<^verbatim>\<open>region\<close>, \<^verbatim>\<open>dominant_emotion\<close> and \<^verbatim>\<open>emotion\<close> (the
  score of each emotion, here \<open>emotions\<close>).\<close>

datatype region = Region int int int int

record face_data =
  region :: region
  dominant_emotion :: string
  emotions :: "string \<rightharpoonup> rat"

text \<open>The dict \<^verbatim>\<open>recognize_emotion\<close> returns (its key \<^verbatim>\<open>confidence\<close> is
  \<open>result_confidence\<close> here), the entry kept in the history, and the session.\<close>

record emotion_result =
  box :: region
  label :: string
  result_confidence :: rat

record history_entry =
  emotion :: string
  confidence :: rat
  filename :: string

record session =
  username :: "string option"
  emotion_history :: "history_entry list option"

text \<open>The arguments of \<^verbatim>\<open>DeepFace.analyze\<close> and of \<^verbatim>\<open>ollama.chat\<close>; a message is a pair
  of role and content.\<close>

record analyze_request =
  img_path :: string
  actions :: "string list"
  detector_backend :: string
  enforce_detection :: bool

record chat_request =
  model :: string
  messages :: "(string \<times> string) list"
  temperature :: rat

text \<open>The state a request runs in: the session, the paths that exist on disk, what was
  printed (the warning names the path and the exception), and the calls made so far to the
  two adapters.\<close>

datatype log_line = DeleteWarning string exn

record world =
  session :: session
  disk :: "string set"
  stdout :: "log_line list"
  analyze_calls :: "analyze_request list"
  chat_calls :: "chat_request list"

text \<open>What the outside world answers during one request. \<^verbatim>\<open>file.save\<close> returns, or raises
  with the file created or not; \<^verbatim>\<open>os.remove\<close> returns or raises; \<^verbatim>\<open>cv2.imread\<close> returns
  \<open>None\<close> for a file it cannot read.\<close>

datatype save_outcome = Saved | SaveRaised exn bool

record 'img env =
  uuid_hex :: string
  tmpdir :: string
  now_stamp :: string
  file_save :: save_outcome
  deepface_analyze :: "analyze_request \<Rightarrow> exn + face_data list"
  ollama_chat :: "chat_request \<Rightarrow> exn + string"
  cv2_imread :: "string \<Rightarrow> 'img option"
  cv2_annotate_encode :: "'img \<Rightarrow> region \<Rightarrow> string \<Rightarrow> exn + string"
  os_remove :: "exn option"

text \<open>An uploaded file (only its name matters to the handler), and the responses:
  \<^verbatim>\<open>redirect(url_for(endpoint))\<close>, \<^verbatim>\<open>render_template(name, error=...)\<close>, and \<^verbatim>\<open>jsonify\<close> with
  its status. \<open>ErrorOf e\<close> stands for the body whose message is \<^verbatim>\<open>f'Error: {str(e)}'\<close>;
  \<open>Detection\<close> carries the image data URI, the emotion, the confidence and the mood text.\<close>

record file_storage =
  upload_filename :: string

datatype http_method = GET | POST

datatype payload =
    Message string
  | ErrorOf exn
  | Detection string string rat string
  | HistoryOf "history_entry list"

datatype response =
    Redirect string
  | Render string "string option"
  | Json payload nat

datatype request =
    Home
  | Login http_method "string \<rightharpoonup> string"
  | Logout
  | Index
  | Dashboards
  | ProcessEmotion "string \<rightharpoonup> file_storage"
  | GetHistory
  | ClearHistory

subsection \<open>Python primitives the handlers use\<close>

text \<open>\<^verbatim>\<open>str.lower\<close>, on the ASCII letters. Python lowers other code points too, but none
  of them becomes a letter of an allowed extension, so membership in the allow-set is
  decided by the ASCII letters alone.\<close>

definition lower_char :: "char \<Rightarrow> char" where
  "lower_char c =
     (case map_of (zip ''ABCDEFGHIJKLMNOPQRSTUVWXYZ'' ''abcdefghijklmnopqrstuvwxyz'') c of
        Some l \<Rightarrow> l
      | None \<Rightarrow> c)"

definition lower :: "string \<Rightarrow> string" where
  "lower s = map lower_char s"

text \<open>\<^verbatim>\<open>s.rsplit('.', 1)\<close>: split once, at the last dot.\<close>

definition rsplit_dot :: "string \<Rightarrow> string list" where
  "rsplit_dot s =
     (if CHR ''.'' \<in> set s
      then [rev (tl (dropWhile (\<lambda>c. c \<noteq> CHR ''.'') (rev s))),
            rev (takeWhile (\<lambda>c. c \<noteq> CHR ''.'') (rev s))]
      else [s])"

text \<open>\<^verbatim>\<open>dict.get(key, default)\<close>.\<close>

definition dict_get :: "('k \<rightharpoonup> 'v) \<Rightarrow> 'k \<Rightarrow> 'v \<Rightarrow> 'v" where
  "dict_get d k dflt = (case d k of None \<Rightarrow> dflt | Some v \<Rightarrow> v)"

text \<open>\<^verbatim>\<open>os.path.join\<close> of a directory and a relative name (POSIX).\<close>

definition path_join :: "string \<Rightarrow> string \<Rightarrow> string" where
  "path_join a b = (if a = [] \<or> last a = CHR ''/'' then a @ b else a @ ''/'' @ b)"

text \<open>The format specification \<^verbatim>\<open>.1f\<close>: the exact value is rounded to one decimal,
  ties to the even digit; a negative value keeps its sign even when it rounds to zero.\<close>

definition round_half_even :: "rat \<Rightarrow> int" where
  "round_half_even q =
     (let f = \<lfloor>q\<rfloor>; d = q - of_int f
      in if d < 1 / 2 then f else if 1 / 2 < d then f + 1 else if even f then f else f + 1)"

definition digit_char :: "nat \<Rightarrow> char" where
  "digit_char n = ''0123456789'' ! n"

fun string_of_nat :: "nat \<Rightarrow> string" where
  "string_of_nat n =
     (if n < 10 then [digit_char n] else string_of_nat (n div 10) @ [digit_char (n mod 10)])"

declare string_of_nat.simps [simp del]

definition tenths :: "rat \<Rightarrow> nat" where
  "tenths c = nat (round_half_even (\<bar>c\<bar> * 10))"

definition fmt_1f :: "rat \<Rightarrow> string" where
  "fmt_1f c =
     (if c < 0 then ''-'' else '''') @ string_of_nat (tenths c div 10) @ ''.'' @
     [digit_char (tenths c mod 10)]"

subsection \<open>helpers.py\<close>

definition analyze_request_of :: "string \<Rightarrow> analyze_request" where
  "analyze_request_of p =
     \<lparr>img_path = p, actions = [''emotion''], detector_backend = ''retinaface'',
      enforce_detection = False\<rparr>"

definition recognize_emotion ::
  "'img env \<Rightarrow> string option \<Rightarrow> world \<Rightarrow> (exn + emotion_result option) \<times> world" where
  "recognize_emotion env path wd =
     (case path of
        None \<Rightarrow> (Inr None, wd)
      | Some p \<Rightarrow>
          (let wd' = wd\<lparr>analyze_calls := analyze_calls wd @ [analyze_request_of p]\<rparr>
           in case deepface_analyze env (analyze_request_of p) of
                Inl e \<Rightarrow> (Inl e, wd')
              | Inr results \<Rightarrow>
                  (case results of
                     [] \<Rightarrow> (Inl IndexError, wd')
                   | fd # _ \<Rightarrow>
                       (case emotions fd (dominant_emotion fd) of
                          None \<Rightarrow> (Inl (KeyError (dominant_emotion fd)), wd')
                        | Some c \<Rightarrow>
                            (Inr (Some \<lparr>box = region fd, label = dominant_emotion fd,
                                        result_confidence = c\<rparr>), wd')))))"

definition mood_prompt :: "string \<Rightarrow> rat \<Rightarrow> string" where
  "mood_prompt emotion_label conf =
     ''The detected emotion is '' @ emotion_label @
     ''. Suggest a 3-song playlist that matches it. Start by saying: 'Tonight's vibe is '' @
     emotion_label @ ''. I'm '' @ fmt_1f conf @
     ''% sure about it... (here give a short description of the mood)... For that reason, here are some songs to match the mood.' and then give the playlist you suggest. No final questions or suggestions.''"

definition mood_request :: "string \<Rightarrow> rat \<Rightarrow> chat_request" where
  "mood_request emotion_label conf =
     \<lparr>model = ''gemma3:1b'',
      messages = [(''system'', ''You are a professional music curator and psychologist.''),
                  (''user'', mood_prompt emotion_label conf)],
      temperature = 7 / 10\<rparr>"

definition generate_mood_content ::
  "'img env \<Rightarrow> string \<Rightarrow> rat \<Rightarrow> world \<Rightarrow> (exn + string) \<times> world" where
  "generate_mood_content env emotion_label conf wd =
     (ollama_chat env (mood_request emotion_label conf),
      wd\<lparr>chat_calls := chat_calls wd @ [mood_request emotion_label conf]\<rparr>)"

subsection \<open>app.py\<close>

definition ALLOWED_EXTENSIONS :: "string set" where
  "ALLOWED_EXTENSIONS = {''png'', ''jpg'', ''jpeg'', ''gif'', ''bmp''}"

definition allowed_file :: "string \<Rightarrow> bool" where
  "allowed_file name =
     (if CHR ''.'' \<in> set name then lower (rsplit_dot name ! 1) \<in> ALLOWED_EXTENSIONS else False)"

definition home :: "session \<Rightarrow> response \<times> session" where
  "home s = (if username s \<noteq> None then (Redirect ''index'', s) else (Redirect ''login'', s))"

definition login :: "http_method \<Rightarrow> (string \<rightharpoonup> string) \<Rightarrow> session \<Rightarrow> response \<times> session" where
  "login method form s =
     (if method = POST then
        (let user = dict_get form ''username'' ''''; password = dict_get form ''password'' ''''
         in if user = ''user'' \<and> password = ''54321''
            then (Redirect ''index'', s\<lparr>username := Some user, emotion_history := Some []\<rparr>)
            else (Render ''login.html'' (Some ''Invalid username or password''), s))
      else (Render ''login.html'' None, s))"

definition logout :: "session \<Rightarrow> response \<times> session" where
  "logout s = (Redirect ''login'', \<lparr>username = None, emotion_history = None\<rparr>)"

definition index :: "session \<Rightarrow> response \<times> session" where
  "index s =
     (if username s = None then (Redirect ''login'', s) else (Render ''index.html'' None, s))"

definition dashboards :: "session \<Rightarrow> response \<times> session" where
  "dashboards s =
     (if username s = None then (Redirect ''login'', s)
      else (Render ''dashboards.html'' None, s))"

definition temp_path_of :: "'img env \<Rightarrow> string" where
  "temp_path_of env = path_join (tmpdir env) (''temp_'' @ uuid_hex env @ ''.jpg'')"

text \<open>The \<^verbatim>\<open>try\<close> block of \<^verbatim>\<open>process_emotion\<close>, in three stages, last first.

  Lines 130 to 154: the history entry is appended and the result returned. The conversion
  \<^verbatim>\<open>float(...)\<close> of the confidence keeps its value.\<close>

definition record_detection ::
  "'img env \<Rightarrow> emotion_result \<Rightarrow> string \<Rightarrow> string \<Rightarrow> world \<Rightarrow> response \<times> world" where
  "record_detection env emotion_result mood_text img_base64 wd =
     (let fname = label emotion_result @ ''_'' @ now_stamp env;
          conf = result_confidence emotion_result;
          history = (case emotion_history (session wd) of None \<Rightarrow> [] | Some h \<Rightarrow> h);
          history_entry =
            \<lparr>emotion = label emotion_result, confidence = conf, filename = fname\<rparr>
      in (Json (Detection (''data:image/jpeg;base64,'' @ img_base64) (label emotion_result)
                  conf mood_text) 200,
          wd\<lparr>session := (session wd)\<lparr>emotion_history := Some (history @ [history_entry])\<rparr>\<rparr>))"

text \<open>Lines 114 to 128: the image is read back, annotated and encoded. The calls
  \<^verbatim>\<open>cv2.rectangle\<close>, \<^verbatim>\<open>cv2.putText\<close>, \<^verbatim>\<open>cv2.imencode\<close> and \<^verbatim>\<open>base64.b64encode\<close> are one
  answer of the environment: the base64 text, or the exception one of them raised.\<close>

definition annotate_image ::
  "'img env \<Rightarrow> string \<Rightarrow> emotion_result \<Rightarrow> string \<Rightarrow> world \<Rightarrow> (exn + response) \<times> world" where
  "annotate_image env temp_path emotion_result mood_text wd =
     (case cv2_imread env temp_path of
        None \<Rightarrow> (Inr (Json (Message ''Error reading image'') 500), wd)
      | Some img \<Rightarrow>
          (case cv2_annotate_encode env img (box emotion_result)
                  (label emotion_result @ '' ('' @ fmt_1f (result_confidence emotion_result) @
                   ''%)'') of
             Inl e \<Rightarrow> (Inl e, wd)
           | Inr img_base64 \<Rightarrow>
               (Inr (fst (record_detection env emotion_result mood_text img_base64 wd)),
                snd (record_detection env emotion_result mood_text img_base64 wd))))"

text \<open>Lines 105 to 112: detection, then the mood text.\<close>

definition detect_emotion ::
  "'img env \<Rightarrow> string \<Rightarrow> world \<Rightarrow> (exn + response) \<times> world" where
  "detect_emotion env temp_path wd =
     (let wd1 = snd (recognize_emotion env (Some temp_path) wd)
      in case fst (recognize_emotion env (Some temp_path) wd) of
           Inl e \<Rightarrow> (Inl e, wd1)
         | Inr None \<Rightarrow> (Inr (Json (Message ''No face detected in image'') 400), wd1)
         | Inr (Some emotion_result) \<Rightarrow>
             (let wd2 = snd (generate_mood_content env (label emotion_result)
                               (result_confidence emotion_result) wd1)
              in case fst (generate_mood_content env (label emotion_result)
                             (result_confidence emotion_result) wd1) of
                   Inl e \<Rightarrow> (Inl e, wd2)
                 | Inr mood_text \<Rightarrow> annotate_image env temp_path emotion_result mood_text wd2))"

text \<open>Lines 86 to 103, and the whole block: what it returns or raises, the value of the
  variable \<^verbatim>\<open>temp_path\<close> when it is left, and the state then. When \<^verbatim>\<open>file.save\<close> raises,
  the file may or may not have been created.\<close>

definition process_emotion_try ::
  "'img env \<Rightarrow> (string \<rightharpoonup> file_storage) \<Rightarrow> world \<Rightarrow> (exn + response) \<times> string option \<times> world" where
  "process_emotion_try env files wd =
     (if username (session wd) = None
      then (Inr (Json (Message ''Not authenticated'') 401), None, wd)
      else case files ''image'' of
        None \<Rightarrow> (Inr (Json (Message ''No image provided'') 400), None, wd)
      | Some file \<Rightarrow>
          if upload_filename file = '''' \<or> \<not> allowed_file (upload_filename file)
          then (Inr (Json (Message ''Invalid file'') 400), None, wd)
          else
            (let temp_path = temp_path_of env in
             case file_save env of
               SaveRaised e created \<Rightarrow>
                 (Inl e, Some temp_path,
                  if created then wd\<lparr>disk := insert temp_path (disk wd)\<rparr> else wd)
             | Saved \<Rightarrow>
                 (fst (detect_emotion env temp_path (wd\<lparr>disk := insert temp_path (disk wd)\<rparr>)),
                  Some temp_path,
                  snd (detect_emotion env temp_path (wd\<lparr>disk := insert temp_path (disk wd)\<rparr>)))))"

text \<open>The \<^verbatim>\<open>finally\<close> block.\<close>

definition cleanup :: "'img env \<Rightarrow> string option \<Rightarrow> world \<Rightarrow> world" where
  "cleanup env temp_path wd =
     (case temp_path of
        None \<Rightarrow> wd
      | Some p \<Rightarrow>
          if p \<noteq> [] \<and> p \<in> disk wd
          then (case os_remove env of
                  None \<Rightarrow> wd\<lparr>disk := disk wd - {p}\<rparr>
                | Some e \<Rightarrow> wd\<lparr>stdout := stdout wd @ [DeleteWarning p e]\<rparr>)
          else wd)"

definition process_emotion ::
  "'img env \<Rightarrow> (string \<rightharpoonup> file_storage) \<Rightarrow> world \<Rightarrow> response \<times> world" where
  "process_emotion env files wd =
     (case process_emotion_try env files wd of
        (Inr resp, temp_path, wd') \<Rightarrow> (resp, cleanup env temp_path wd')
      | (Inl e, temp_path, wd') \<Rightarrow> (Json (ErrorOf e) 500, cleanup env temp_path wd'))"

definition get_history :: "session \<Rightarrow> response \<times> session" where
  "get_history s =
     (if username s = None then (Json (Message ''Not authenticated'') 401, s)
      else (Json (HistoryOf (case emotion_history s of None \<Rightarrow> [] | Some h \<Rightarrow> h)) 200, s))"

definition clear_history :: "session \<Rightarrow> response \<times> session" where
  "clear_history s =
     (if username s = None then (Json (Message ''Not authenticated'') 401, s)
      else (Json (Message ''History cleared'') 200, s\<lparr>emotion_history := Some []\<rparr>))"

text \<open>The routes: each request runs its handler on the session of the state.\<close>

definition on_session :: "(session \<Rightarrow> response \<times> session) \<Rightarrow> world \<Rightarrow> response \<times> world" where
  "on_session h wd = (case h (session wd) of (resp, s) \<Rightarrow> (resp, wd\<lparr>session := s\<rparr>))"

fun handle :: "'img env \<Rightarrow> request \<Rightarrow> world \<Rightarrow> response \<times> world" where
  "handle env Home wd = on_session home wd"
| "handle env (Login method form) wd = on_session (login method form) wd"
| "handle env Logout wd = on_session logout wd"
| "handle env Index wd = on_session index wd"
| "handle env Dashboards wd = on_session dashboards wd"
| "handle env (ProcessEmotion files) wd = process_emotion env files wd"
| "handle env GetHistory wd = on_session get_history wd"
| "handle env ClearHistory wd = on_session clear_history wd"

text \<open>The history a session holds; an absent key reads as the empty list, as in
  \<^verbatim>\<open>session.get('emotion_history', [])\<close>.\<close>

definition history_of :: "world \<Rightarrow> history_entry list" where
  "history_of wd = (case emotion_history (session wd) of None \<Rightarrow> [] | Some h \<Rightarrow> h)"

subsection \<open>Notions the properties use\<close>

text \<open>The HTTP status of a response: Flask answers a redirect with 302 and a rendered
  template with 200; a JSON response carries its own code.\<close>

definition status_code :: "response \<Rightarrow> nat" where
  "status_code r = (case r of Redirect _ \<Rightarrow> 302 | Render _ _ \<Rightarrow> 200 | Json _ code \<Rightarrow> code)"

text \<open>The requests whose handler assigns the history anew or clears the session:
  \<^verbatim>\<open>clear_history\<close>, \<^verbatim>\<open>logout\<close>, and \<^verbatim>\<open>login\<close> with the accepted credentials.\<close>

definition resets_history :: "request \<Rightarrow> bool" where
  "resets_history rq =
     (case rq of
        ClearHistory \<Rightarrow> True
      | Logout \<Rightarrow> True
      | Login method form \<Rightarrow>
          method = POST \<and> dict_get form ''username'' '''' = ''user'' \<and>
          dict_get form ''password'' '''' = ''54321''
      | _ \<Rightarrow> False)"

text \<open>The number a string of decimal digits denotes.\<close>

definition digits_value :: "string \<Rightarrow> nat" where
  "digits_value s = foldl (\<lambda>a ch. 10 * a + (of_char ch - 48)) 0 s"

subsection \<open>Example requests\<close>

definition happy_face :: face_data where
  "happy_face =
     \<lparr>region = Region 40 30 120 120, dominant_emotion = ''happy'',
      emotions = [''happy'' \<mapsto> 799 / 8, ''neutral'' \<mapsto> 1 / 8]\<rparr>"

text \<open>What the analysis answers for a picture without a face when detection is not
  enforced: the whole image as the region, and the scores of that region.\<close>

definition whole_image_face :: face_data where
  "whole_image_face =
     \<lparr>region = Region 0 0 640 480, dominant_emotion = ''neutral'',
      emotions = [''neutral'' \<mapsto> 105 / 2, ''sad'' \<mapsto> 95 / 2]\<rparr>"

definition ex_env :: "unit env" where
  "ex_env =
     \<lparr>uuid_hex = ''9f1c2b7e4a5d4c3e8b6a0d1e2f3a4b5c'', tmpdir = ''/tmp'',
      now_stamp = ''20240131_235959'', file_save = Saved,
      deepface_analyze = (\<lambda>rq. Inr [happy_face]),
      ollama_chat = (\<lambda>rq. Inr ''Tonight's vibe is happy.''),
      cv2_imread = (\<lambda>p. Some ()),
      cv2_annotate_encode = (\<lambda>img b t. Inr ''/9j/4AAQ''),
      os_remove = None\<rparr>"

definition landscape_env :: "unit env" where
  "landscape_env =
     ex_env\<lparr>deepface_analyze := (\<lambda>rq. Inr [whole_image_face]),
            ollama_chat := (\<lambda>rq. Inr ''Tonight's vibe is neutral.'')\<rparr>"

text \<open>An upload that is no image, on a disk that refuses the deletion.\<close>

definition corrupt_env :: "unit env" where
  "corrupt_env =
     ex_env\<lparr>deepface_analyze := (\<lambda>rq. Inl (LibraryError ''Confirm that the file is an image'')),
            os_remove := Some (LibraryError ''Permission denied'')\<rparr>"

definition ex_files :: "string \<rightharpoonup> file_storage" where
  "ex_files = [''image'' \<mapsto> \<lparr>upload_filename = ''photo.JPG''\<rparr>]"

definition anonymous :: world where
  "anonymous =
     \<lparr>session = \<lparr>username = None, emotion_history = None\<rparr>, disk = {}, stdout = [],
      analyze_calls = [], chat_calls = []\<rparr>"

definition logged_in :: world where
  "logged_in = anonymous\<lparr>session := \<lparr>username = Some ''user'', emotion_history = Some []\<rparr>\<rparr>"

section \<open>Properties\<close>

subsection \<open>The stages of the request handler\<close>

lemmas example_defs =
  ex_env_def ex_files_def logged_in_def anonymous_def happy_face_def landscape_env_def
  corrupt_env_def whole_image_face_def

lemmas upload_defs =
  allowed_file_def rsplit_dot_def lower_def lower_char_def ALLOWED_EXTENSIONS_def
  temp_path_of_def path_join_def

lemmas stage_defs =
  process_emotion_def process_emotion_try_def detect_emotion_def annotate_image_def
  record_detection_def recognize_emotion_def generate_mood_content_def cleanup_def Let_def

lemma temp_path_nonempty: "temp_path_of env \<noteq> []"
  by (simp add: temp_path_of_def path_join_def)

lemma recognize_emotion_frame:
  "session (snd (recognize_emotion env p wd)) = session wd"
  "disk (snd (recognize_emotion env p wd)) = disk wd"
  "stdout (snd (recognize_emotion env p wd)) = stdout wd"
  "chat_calls (snd (recognize_emotion env p wd)) = chat_calls wd"
  by (simp_all add: recognize_emotion_def Let_def split: option.splits sum.splits list.splits)

lemma recognize_emotion_not_None:
  "fst (recognize_emotion env (Some p) wd) \<noteq> Inr None"
  by (simp add: recognize_emotion_def Let_def split: option.splits sum.splits list.splits)

lemma recognize_emotion_Some:
  assumes "fst (recognize_emotion env (Some p) wd) = Inr (Some er)"
  shows "\<exists>fd rest. deepface_analyze env (analyze_request_of p) = Inr (fd # rest) \<and>
           emotions fd (dominant_emotion fd) = Some (result_confidence er) \<and>
           box er = region fd \<and> label er = dominant_emotion fd"
  using assms
  by (auto simp: recognize_emotion_def Let_def split: option.splits sum.splits list.splits)

lemma generate_mood_content_frame:
  "session (snd (generate_mood_content env l c wd)) = session wd"
  "disk (snd (generate_mood_content env l c wd)) = disk wd"
  "stdout (snd (generate_mood_content env l c wd)) = stdout wd"
  "analyze_calls (snd (generate_mood_content env l c wd)) = analyze_calls wd"
  by (simp_all add: generate_mood_content_def)

lemma record_detection_result:
  "fst (record_detection env er m b wd) =
     Json (Detection (''data:image/jpeg;base64,'' @ b) (label er) (result_confidence er) m) 200"
  "history_of (snd (record_detection env er m b wd)) =
     history_of wd @
     [\<lparr>emotion = label er, confidence = result_confidence er,
       filename = label er @ ''_'' @ now_stamp env\<rparr>]"
  "username (session (snd (record_detection env er m b wd))) = username (session wd)"
  "disk (snd (record_detection env er m b wd)) = disk wd"
  "stdout (snd (record_detection env er m b wd)) = stdout wd"
  by (simp_all add: record_detection_def Let_def history_of_def)

lemma annotate_image_frame:
  "disk (snd (annotate_image env tp er m wd)) = disk wd"
  "stdout (snd (annotate_image env tp er m wd)) = stdout wd"
  "username (session (snd (annotate_image env tp er m wd))) = username (session wd)"
  by (simp_all add: annotate_image_def record_detection_result split: option.splits sum.splits)

lemma annotate_image_cases:
  "(fst (annotate_image env tp er m wd) = Inr (Json (Message ''Error reading image'') 500) \<and>
      snd (annotate_image env tp er m wd) = wd) \<or>
   (\<exists>e. fst (annotate_image env tp er m wd) = Inl e \<and> snd (annotate_image env tp er m wd) = wd) \<or>
   (\<exists>b. fst (annotate_image env tp er m wd) =
           Inr (Json (Detection (''data:image/jpeg;base64,'' @ b) (label er)
                  (result_confidence er) m) 200) \<and>
        history_of (snd (annotate_image env tp er m wd)) =
          history_of wd @
          [\<lparr>emotion = label er, confidence = result_confidence er,
            filename = label er @ ''_'' @ now_stamp env\<rparr>])"
  by (simp add: annotate_image_def record_detection_result split: option.splits sum.splits)

lemma detect_emotion_frame:
  "disk (snd (detect_emotion env tp wd)) = disk wd"
  "stdout (snd (detect_emotion env tp wd)) = stdout wd"
  "username (session (snd (detect_emotion env tp wd))) = username (session wd)"
  by (simp_all add: detect_emotion_def Let_def annotate_image_frame recognize_emotion_frame
        generate_mood_content_frame split: option.splits sum.splits)

text \<open>What the detection stage can answer: an exception or the read error, with the
  history as it was, or the detection result, with one entry more.\<close>

lemma detect_emotion_cases:
  "((\<exists>e. fst (detect_emotion env tp wd) = Inl e) \<or>
     fst (detect_emotion env tp wd) = Inr (Json (Message ''Error reading image'') 500)) \<and>
    history_of (snd (detect_emotion env tp wd)) = history_of wd \<or>
   (\<exists>fd rest b m.
      deepface_analyze env (analyze_request_of tp) = Inr (fd # rest) \<and>
      emotions fd (dominant_emotion fd) \<noteq> None \<and>
      fst (detect_emotion env tp wd) =
        Inr (Json (Detection (''data:image/jpeg;base64,'' @ b) (dominant_emotion fd)
               (the (emotions fd (dominant_emotion fd))) m) 200) \<and>
      history_of (snd (detect_emotion env tp wd)) =
        history_of wd @
        [\<lparr>emotion = dominant_emotion fd, confidence = the (emotions fd (dominant_emotion fd)),
          filename = dominant_emotion fd @ ''_'' @ now_stamp env\<rparr>])"
proof (cases "fst (recognize_emotion env (Some tp) wd)")
  case (Inl e)
  then show ?thesis
    by (simp add: detect_emotion_def Let_def history_of_def recognize_emotion_frame)
next
  case (Inr r)
  then obtain er where r: "fst (recognize_emotion env (Some tp) wd) = Inr (Some er)"
    using recognize_emotion_not_None [of env tp wd] by (cases r) auto
  from recognize_emotion_Some [OF r] obtain fd rest where
    fd: "deepface_analyze env (analyze_request_of tp) = Inr (fd # rest)"
      "emotions fd (dominant_emotion fd) = Some (result_confidence er)"
      "label er = dominant_emotion fd"
    by blast
  let ?w1 = "snd (recognize_emotion env (Some tp) wd)"
  let ?g = "generate_mood_content env (label er) (result_confidence er) ?w1"
  have h1: "history_of (snd ?g) = history_of wd"
    by (simp add: history_of_def generate_mood_content_frame recognize_emotion_frame)
  show ?thesis
  proof (cases "fst ?g")
    case (Inl e)
    then show ?thesis
      using r h1 by (simp add: detect_emotion_def Let_def)
  next
    case (Inr m)
    then have d: "detect_emotion env tp wd = annotate_image env tp er m (snd ?g)"
      using r by (simp add: detect_emotion_def Let_def)
    show ?thesis
      using annotate_image_cases [of env tp er m "snd ?g"] fd h1
      unfolding d by auto
  qed
qed

lemma try_response:
  "fst (process_emotion env files wd) =
     (case fst (process_emotion_try env files wd) of
        Inr resp \<Rightarrow> resp
      | Inl e \<Rightarrow> Json (ErrorOf e) 500)"
  by (simp add: process_emotion_def split: prod.splits sum.splits)

lemma try_state:
  "snd (process_emotion env files wd) =
     cleanup env (fst (snd (process_emotion_try env files wd)))
       (snd (snd (process_emotion_try env files wd)))"
  by (simp add: process_emotion_def split: prod.splits sum.splits)

lemma cleanup_session: "session (cleanup env tp wd) = session wd"
  by (simp add: cleanup_def split: option.splits)

lemma try_accepted:
  assumes "username (session wd) \<noteq> None" and "files ''image'' = Some file"
    and "upload_filename file \<noteq> []" and "allowed_file (upload_filename file)"
  shows "process_emotion_try env files wd =
     (case file_save env of
        SaveRaised e created \<Rightarrow>
          (Inl e, Some (temp_path_of env),
           if created then wd\<lparr>disk := insert (temp_path_of env) (disk wd)\<rparr> else wd)
      | Saved \<Rightarrow>
          (fst (detect_emotion env (temp_path_of env)
                  (wd\<lparr>disk := insert (temp_path_of env) (disk wd)\<rparr>)),
           Some (temp_path_of env),
           snd (detect_emotion env (temp_path_of env)
                  (wd\<lparr>disk := insert (temp_path_of env) (disk wd)\<rparr>))))"
  using assms by (auto simp: process_emotion_try_def Let_def)

text \<open>Every request is rejected before the upload is saved, or saved and passed on.\<close>

lemma try_rejected_or_accepted:
  "(username (session wd) = None \<or> files ''image'' = None \<or>
    (\<exists>file. files ''image'' = Some file \<and>
       (upload_filename file = [] \<or> \<not> allowed_file (upload_filename file)))) \<or>
   (\<exists>file. username (session wd) \<noteq> None \<and> files ''image'' = Some file \<and>
      upload_filename file \<noteq> [] \<and> allowed_file (upload_filename file))"
  by (cases "files ''image''") auto

subsection \<open>Detection and the history\<close>

lemma try_rejected_response:
  assumes "username (session wd) = None \<or> files ''image'' = None \<or>
           (\<exists>file. files ''image'' = Some file \<and>
              (upload_filename file = [] \<or> \<not> allowed_file (upload_filename file)))"
  shows "\<exists>msg code. process_emotion_try env files wd = (Inr (Json (Message msg) code), None, wd) \<and>
           msg \<noteq> ''No face detected in image''"
  using assms by (auto simp: process_emotion_try_def split: option.splits)

lemma history_of_disk [simp]: "history_of (wd\<lparr>disk := d\<rparr>) = history_of wd"
  by (simp add: history_of_def)

lemma history_of_cleanup [simp]: "history_of (cleanup env tp wd) = history_of wd"
  by (simp add: history_of_def cleanup_session)

text \<open>What a request to \<^verbatim>\<open>process_emotion\<close> can answer, and what becomes of the history.\<close>

lemma process_emotion_cases:
  "((\<exists>msg. msg \<noteq> ''No face detected in image'' \<and>
       (\<exists>code. fst (process_emotion env files wd) = Json (Message msg) code)) \<or>
    (\<exists>e. fst (process_emotion env files wd) = Json (ErrorOf e) 500)) \<and>
    history_of (snd (process_emotion env files wd)) = history_of wd \<or>
   (\<exists>fd rest b m.
      deepface_analyze env (analyze_request_of (temp_path_of env)) = Inr (fd # rest) \<and>
      emotions fd (dominant_emotion fd) \<noteq> None \<and>
      fst (process_emotion env files wd) =
        Json (Detection (''data:image/jpeg;base64,'' @ b) (dominant_emotion fd)
               (the (emotions fd (dominant_emotion fd))) m) 200 \<and>
      history_of (snd (process_emotion env files wd)) =
        history_of wd @
        [\<lparr>emotion = dominant_emotion fd, confidence = the (emotions fd (dominant_emotion fd)),
          filename = dominant_emotion fd @ ''_'' @ now_stamp env\<rparr>])"
proof -
  consider
    (rejected) "username (session wd) = None \<or> files ''image'' = None \<or>
      (\<exists>file. files ''image'' = Some file \<and>
         (upload_filename file = [] \<or> \<not> allowed_file (upload_filename file)))"
  | (accepted) upl where "username (session wd) \<noteq> None" "files ''image'' = Some upl"
      "upload_filename upl \<noteq> []" "allowed_file (upload_filename upl)"
    using try_rejected_or_accepted [of wd files] by blast
  then show ?thesis
  proof cases
    case rejected
    from try_rejected_response [where env = env and files = files and wd = wd, OF this] obtain msg code where
      "process_emotion_try env files wd = (Inr (Json (Message msg) code), None, wd)"
      "msg \<noteq> ''No face detected in image''"
      by blast
    then show ?thesis
      by (simp add: try_response try_state)
  next
    case accepted
    note t = try_accepted [where env = env and files = files and wd = wd, OF accepted]
    show ?thesis
    proof (cases "file_save env")
      case (SaveRaised e created)
      then show ?thesis
        using t by (simp add: try_response try_state)
    next
      case Saved
      let ?w = "wd\<lparr>disk := insert (temp_path_of env) (disk wd)\<rparr>"
      have f: "fst (process_emotion env files wd) =
          (case fst (detect_emotion env (temp_path_of env) ?w) of
             Inr resp \<Rightarrow> resp | Inl e \<Rightarrow> Json (ErrorOf e) 500)"
        using t Saved by (simp add: try_response)
      have s: "history_of (snd (process_emotion env files wd)) =
          history_of (snd (detect_emotion env (temp_path_of env) ?w))"
        using t Saved by (simp add: try_state)
      show ?thesis
        using detect_emotion_cases [of env "temp_path_of env" ?w]
        unfolding f s by (elim disjE conjE exE) auto
    qed
  qed
qed

lemma no_face_response_unreachable:
  "fst (process_emotion env files wd) \<noteq> Json (Message ''No face detected in image'') 400"
  using process_emotion_cases [of env files wd] by auto

text \<open>Claim C2. The claim is that an authenticated request whose image shows no face is
  answered with status 400 and the message \<open>No face detected in image\<close>, the history
  untouched. The code does not do so. Detection is called with \<open>enforce_detection\<close> off, so
  the analysis answers a picture without a face with one entry (the whole image as the
  region); \<open>recognize_emotion\<close> builds a result from it and the handler answers 200 and
  appends an entry to the history, as evaluated here. By \<open>no_face_response_unreachable\<close>, no
  request at all is answered with that message.\<close>

theorem no_face_image_accepted:
  "fst (process_emotion landscape_env ex_files logged_in) =
     Json (Detection ''data:image/jpeg;base64,/9j/4AAQ'' ''neutral'' (105 / 2)
            ''Tonight's vibe is neutral.'') 200 \<and>
   history_of logged_in = [] \<and>
   history_of (snd (process_emotion landscape_env ex_files logged_in)) =
     [\<lparr>emotion = ''neutral'', confidence = 105 / 2, filename = ''neutral_20240131_235959''\<rparr>]"
  by (simp add: stage_defs example_defs upload_defs analyze_request_of_def history_of_def)

text \<open>Claim C3. As amended: whenever \<open>process_emotion\<close> answers with a detection result
  (status 200), the label and the confidence returned are those of the first element of the
  analysis, the confidence exactly the score the analysis gave for the dominant emotion
  (neither rounded nor clamped, so it lies in [0,100] when that score does), and the
  history afterwards is the history before with exactly one entry appended, whose
  \<open>emotion\<close> is that label and whose \<open>confidence\<close> is that same number.\<close>

theorem successful_detection_recorded:
  assumes "fst (process_emotion env files wd) = Json (Detection img e c m) 200"
  shows "\<exists>fd rest.
           deepface_analyze env (analyze_request_of (temp_path_of env)) = Inr (fd # rest) \<and>
           e = dominant_emotion fd \<and> emotions fd (dominant_emotion fd) = Some c \<and>
           history_of (snd (process_emotion env files wd)) =
             history_of wd @ [\<lparr>emotion = e, confidence = c, filename = e @ ''_'' @ now_stamp env\<rparr>]"
  using process_emotion_cases [of env files wd] assms by auto

text \<open>A request that succeeds, with the score 99.875 for \<open>happy\<close>.\<close>

theorem successful_detection_recorded_witness:
  "fst (process_emotion ex_env ex_files logged_in) =
     Json (Detection ''data:image/jpeg;base64,/9j/4AAQ'' ''happy'' (799 / 8) ''Tonight's vibe is happy.'') 200 \<and>
   history_of (snd (process_emotion ex_env ex_files logged_in)) =
     history_of logged_in @ [\<lparr>emotion = ''happy'', confidence = 799 / 8, filename = ''happy_20240131_235959''\<rparr>]"
proof -
  have r: "fst (process_emotion ex_env ex_files logged_in) =
     Json (Detection ''data:image/jpeg;base64,/9j/4AAQ'' ''happy'' (799 / 8) ''Tonight's vibe is happy.'') 200"
    by (simp add: stage_defs example_defs upload_defs)
  have n: "now_stamp ex_env = ''20240131_235959''"
    by (simp add: example_defs)
  show ?thesis
    using successful_detection_recorded [OF r] r n by auto
qed

text \<open>As stated the claim fails: the entry and the response carry the score 99.875 as
  it is, while its rendering with one decimal is 99.9 and the nearest whole number is 100.\<close>

theorem unrounded_confidence_counterexample:
  "fst (process_emotion ex_env ex_files logged_in) =
     Json (Detection ''data:image/jpeg;base64,/9j/4AAQ'' ''happy'' (799 / 8) ''Tonight's vibe is happy.'') 200 \<and>
   map confidence (history_of (snd (process_emotion ex_env ex_files logged_in))) = [799 / 8] \<and>
   fmt_1f (799 / 8) = ''99.9'' \<and> (799 / 8 :: rat) \<noteq> 999 / 10 \<and>
   of_int (round_half_even (799 / 8)) \<noteq> (799 / 8 :: rat)"
proof -
  have "fmt_1f (799 / 8) = ''99.9''"
    by code_simp
  moreover have "of_int (round_half_even (799 / 8)) \<noteq> (799 / 8 :: rat)"
    by code_simp
  ultimately show ?thesis
    by (simp add: stage_defs example_defs upload_defs history_of_def)
qed

subsection \<open>The temporary file\<close>

lemma detect_ignores_os_remove:
  "detect_emotion (env\<lparr>os_remove := r\<rparr>) tp wd = detect_emotion env tp wd"
proof -
  have rec: "\<And>p w. recognize_emotion (env\<lparr>os_remove := r\<rparr>) p w = recognize_emotion env p w"
    by (simp add: recognize_emotion_def Let_def split: option.splits)
  have gen: "\<And>l c w. generate_mood_content (env\<lparr>os_remove := r\<rparr>) l c w =
      generate_mood_content env l c w"
    by (simp add: generate_mood_content_def)
  have det: "\<And>er m b w. record_detection (env\<lparr>os_remove := r\<rparr>) er m b w =
      record_detection env er m b w"
    by (simp add: record_detection_def)
  have ann: "\<And>er m w. annotate_image (env\<lparr>os_remove := r\<rparr>) tp er m w =
      annotate_image env tp er m w"
    by (simp add: annotate_image_def det split: option.splits sum.splits)
  show ?thesis
    by (simp add: detect_emotion_def Let_def rec gen ann split: option.splits sum.splits)
qed

text \<open>Claim C5. When the upload passed validation and \<open>file.save\<close> wrote the temporary
  file (it returned, or it raised after creating the file), then however the handler is
  left: if \<open>os.remove\<close> succeeds, the file is not on disk afterwards, nothing else on disk has
  changed and nothing is printed; if \<open>os.remove\<close> raises, only a warning is printed; and
  the response is the same whatever \<open>os.remove\<close> does.\<close>

theorem temp_file_removed_on_every_exit:
  assumes "username (session wd) \<noteq> None"
    and "files ''image'' = Some file"
    and "upload_filename file \<noteq> []" and "allowed_file (upload_filename file)"
    and "file_save env = Saved \<or> file_save env = SaveRaised e True"
  shows "(os_remove env = None \<longrightarrow>
            temp_path_of env \<notin> disk (snd (process_emotion env files wd)) \<and>
            disk (snd (process_emotion env files wd)) = disk wd - {temp_path_of env} \<and>
            stdout (snd (process_emotion env files wd)) = stdout wd) \<and>
         (\<forall>x. os_remove env = Some x \<longrightarrow>
            stdout (snd (process_emotion env files wd)) =
              stdout wd @ [DeleteWarning (temp_path_of env) x]) \<and>
         fst (process_emotion (env\<lparr>os_remove := outcome\<rparr>) files wd) =
           fst (process_emotion env files wd)"
proof -
  let ?tp = "temp_path_of env"
  let ?w = "wd\<lparr>disk := insert ?tp (disk wd)\<rparr>"
  let ?env' = "env\<lparr>os_remove := outcome\<rparr>"
  note t = try_accepted [where env = env and files = files and wd = wd, OF assms(1-4)]
  have same: "temp_path_of ?env' = ?tp" "file_save ?env' = file_save env"
    "detect_emotion ?env' ?tp ?w = detect_emotion env ?tp ?w"
    by (simp_all add: temp_path_of_def detect_ignores_os_remove)
  have "process_emotion_try ?env' files wd = process_emotion_try env files wd"
    unfolding try_accepted [where env = ?env' and files = files and wd = wd, OF assms(1-4)] t same ..
  then have resp: "fst (process_emotion ?env' files wd) = fst (process_emotion env files wd)"
    by (simp add: try_response)
  obtain wd' where s: "snd (process_emotion env files wd) = cleanup env (Some ?tp) wd'"
    and d: "disk wd' = insert ?tp (disk wd)" and o: "stdout wd' = stdout wd"
    using assms(5) t by (auto simp: try_state detect_emotion_frame)
  show ?thesis
    using s d o resp temp_path_nonempty [of env] by (auto simp: cleanup_def)
qed

text \<open>A request that succeeds and the file is removed; a request whose analysis raises
  while the deletion fails too: the answer is the 500 of the analysis, with or without
  the failure of the deletion.\<close>

theorem temp_file_removed_on_every_exit_witness:
  "disk (snd (process_emotion ex_env ex_files logged_in)) = {} \<and>
   fst (process_emotion corrupt_env ex_files logged_in) =
     Json (ErrorOf (LibraryError ''Confirm that the file is an image'')) 500 \<and>
   stdout (snd (process_emotion corrupt_env ex_files logged_in)) =
     [DeleteWarning ''/tmp/temp_9f1c2b7e4a5d4c3e8b6a0d1e2f3a4b5c.jpg'' (LibraryError ''Permission denied'')] \<and>
   fst (process_emotion (corrupt_env\<lparr>os_remove := None\<rparr>) ex_files logged_in) =
     Json (ErrorOf (LibraryError ''Confirm that the file is an image'')) 500 \<and>
   disk (snd (process_emotion (corrupt_env\<lparr>os_remove := None\<rparr>) ex_files logged_in)) = {}"
proof -
  have a: "username (session logged_in) \<noteq> None"
    by (simp add: example_defs)
  have f: "ex_files ''image'' = Some \<lparr>upload_filename = ''photo.JPG''\<rparr>"
    by (simp add: example_defs)
  have n: "upload_filename \<lparr>upload_filename = ''photo.JPG''\<rparr> \<noteq> []"
    by simp
  have v: "allowed_file (upload_filename \<lparr>upload_filename = ''photo.JPG''\<rparr>)"
    by (simp add: upload_defs)
  have s1: "file_save ex_env = Saved \<or> file_save ex_env = SaveRaised IndexError True"
    by (simp add: example_defs)
  have s2: "file_save corrupt_env = Saved \<or> file_save corrupt_env = SaveRaised IndexError True"
    by (simp add: example_defs)
  have s3: "file_save (corrupt_env\<lparr>os_remove := None\<rparr>) = Saved \<or>
            file_save (corrupt_env\<lparr>os_remove := None\<rparr>) = SaveRaised IndexError True"
    by (simp add: example_defs)
  have r1: "os_remove ex_env = None" "disk logged_in = {}" "stdout logged_in = []"
    "os_remove corrupt_env = Some (LibraryError ''Permission denied'')"
    "temp_path_of corrupt_env = ''/tmp/temp_9f1c2b7e4a5d4c3e8b6a0d1e2f3a4b5c.jpg''"
    by (simp_all add: example_defs upload_defs)
  have e: "fst (process_emotion corrupt_env ex_files logged_in) =
     Json (ErrorOf (LibraryError ''Confirm that the file is an image'')) 500"
    by (simp add: stage_defs example_defs upload_defs)
  show ?thesis
    using temp_file_removed_on_every_exit
            [where env = "ex_env" and files = ex_files and wd = logged_in and outcome = None,
             OF a f n v s1]
          temp_file_removed_on_every_exit
            [where env = "corrupt_env" and files = ex_files and wd = logged_in and outcome = None,
             OF a f n v s2]
          temp_file_removed_on_every_exit
            [where env = "corrupt_env\<lparr>os_remove := None\<rparr>" and files = ex_files and wd = logged_in and outcome = None,
             OF a f n v s3]
          r1 e
    by simp
qed

subsection \<open>Login and the session gate\<close>

lemma login_post_cases:
  "login POST form s =
     (if dict_get form ''username'' '''' = ''user'' \<and> dict_get form ''password'' '''' = ''54321''
      then (Redirect ''index'', s\<lparr>username := Some ''user'', emotion_history := Some []\<rparr>)
      else (Render ''login.html'' (Some ''Invalid username or password''), s))"
  by (simp add: login_def Let_def)

text \<open>Claim C1. A login POST with the pair (\<open>user\<close>, \<open>54321\<close>) redirects to the index page and
  leaves a session whose \<open>username\<close> is set and whose \<open>emotion_history\<close> is the empty
  list. Every other pair (a missing field reads as the empty string) renders the login
  view again with the error message and leaves the session as it was; so from a state
  without a session, a session exists afterwards exactly when the pair was the accepted
  one.\<close>

theorem login_establishes_session_iff:
  "(dict_get form ''username'' '''' = ''user'' \<and> dict_get form ''password'' '''' = ''54321'' \<longrightarrow>
      fst (login POST form s) = Redirect ''index'' \<and>
      username (snd (login POST form s)) = Some ''user'' \<and>
      emotion_history (snd (login POST form s)) = Some []) \<and>
   (\<not> (dict_get form ''username'' '''' = ''user'' \<and> dict_get form ''password'' '''' = ''54321'') \<longrightarrow>
      fst (login POST form s) = Render ''login.html'' (Some ''Invalid username or password'') \<and>
      snd (login POST form s) = s) \<and>
   (username s = None \<longrightarrow>
      (username (snd (login POST form s)) \<noteq> None \<longleftrightarrow>
       dict_get form ''username'' '''' = ''user'' \<and> dict_get form ''password'' '''' = ''54321''))"
  by (simp add: login_post_cases)

text \<open>The accepted pair, a wrong password, a wrong case in the name, a missing field.\<close>

theorem login_establishes_session_iff_witness:
  "login POST [''username'' \<mapsto> ''user'', ''password'' \<mapsto> ''54321''] (session anonymous) =
     (Redirect ''index'', \<lparr>username = Some ''user'', emotion_history = Some []\<rparr>) \<and>
   login POST [''username'' \<mapsto> ''user'', ''password'' \<mapsto> ''5432''] (session anonymous) =
     (Render ''login.html'' (Some ''Invalid username or password''), session anonymous) \<and>
   login POST [''username'' \<mapsto> ''User'', ''password'' \<mapsto> ''54321''] (session anonymous) =
     (Render ''login.html'' (Some ''Invalid username or password''), session anonymous) \<and>
   login POST [''password'' \<mapsto> ''54321''] (session anonymous) =
     (Render ''login.html'' (Some ''Invalid username or password''), session anonymous) \<and>
   username (session anonymous) = None"
  using login_establishes_session_iff
          [of "[''username'' \<mapsto> ''user'', ''password'' \<mapsto> ''54321'']" "session anonymous"]
        login_establishes_session_iff
          [of "[''username'' \<mapsto> ''user'', ''password'' \<mapsto> ''5432'']" "session anonymous"]
        login_establishes_session_iff
          [of "[''username'' \<mapsto> ''User'', ''password'' \<mapsto> ''54321'']" "session anonymous"]
        login_establishes_session_iff
          [of "[''password'' \<mapsto> ''54321'']" "session anonymous"]
  by (simp add: dict_get_def prod_eq_iff anonymous_def)

text \<open>Claim C7. With an established session, clear-history answers 200 with the message
  \<open>History cleared\<close>, and get-history on the state it leaves answers with the empty
  history.\<close>

theorem clear_then_get_history_empty:
  "username (session wd) \<noteq> None \<Longrightarrow>
     fst (handle env ClearHistory wd) = Json (Message ''History cleared'') 200 \<and>
     fst (handle env' GetHistory (snd (handle env ClearHistory wd))) = Json (HistoryOf []) 200 \<and>
     history_of (snd (handle env ClearHistory wd)) = []"
  by (simp add: on_session_def clear_history_def get_history_def history_of_def)

text \<open>Clearing a history that holds one entry.\<close>

theorem clear_then_get_history_empty_witness:
  "history_of (snd (process_emotion ex_env ex_files logged_in)) \<noteq> [] \<and>
   fst (handle ex_env ClearHistory (snd (process_emotion ex_env ex_files logged_in))) =
     Json (Message ''History cleared'') 200 \<and>
   fst (handle ex_env GetHistory
         (snd (handle ex_env ClearHistory (snd (process_emotion ex_env ex_files logged_in))))) =
     Json (HistoryOf []) 200"
proof -
  have h: "history_of (snd (process_emotion ex_env ex_files logged_in)) \<noteq> []"
    "username (session (snd (process_emotion ex_env ex_files logged_in))) \<noteq> None"
    by (simp_all add: stage_defs example_defs upload_defs history_of_def)
  show ?thesis
    using clear_then_get_history_empty [OF h(2), of ex_env ex_env] h(1) by simp
qed

subsection \<open>Upload validation\<close>

lemma rsplit_dot_append:
  assumes "CHR ''.'' \<notin> set ext"
  shows "rsplit_dot (pre @ CHR ''.'' # ext) = [pre, ext]"
proof -
  let ?P = "\<lambda>c. c \<noteq> CHR ''.''"
  have tk: "takeWhile ?P (rev ext @ CHR ''.'' # rev pre) = rev ext @ takeWhile ?P (CHR ''.'' # rev pre)"
    by (rule takeWhile_append2) (use assms in auto)
  have dr: "dropWhile ?P (rev ext @ CHR ''.'' # rev pre) = dropWhile ?P (CHR ''.'' # rev pre)"
    by (rule dropWhile_append2) (use assms in auto)
  show ?thesis
    by (simp add: rsplit_dot_def tk dr)
qed

lemma allowed_file_iff:
  "CHR ''.'' \<notin> set ext \<Longrightarrow> allowed_file (pre @ CHR ''.'' # ext) \<longleftrightarrow> lower ext \<in> ALLOWED_EXTENSIONS"
  by (simp add: allowed_file_def rsplit_dot_append)

lemma invalid_name_rejected:
  assumes "name = [] \<or> CHR ''.'' \<notin> set name \<or>
           (\<exists>pre ext. name = pre @ ''.'' @ ext \<and> CHR ''.'' \<notin> set ext \<and> lower ext \<notin> ALLOWED_EXTENSIONS)"
  shows "name = [] \<or> \<not> allowed_file name"
  using assms by (auto simp: allowed_file_iff) (simp add: allowed_file_def)

text \<open>Claim C4. As amended: for every request made with an established session whose
  uploaded file has an empty name, a name without a dot, or a last dot-delimited segment
  that, lowered, is not in the allow-set, \<open>process_emotion\<close> answers 400 with the message
  \<open>Invalid file\<close>, changes nothing in the state, and makes no call of the analysis.\<close>

theorem invalid_upload_rejected:
  assumes "username (session wd) \<noteq> None"
    and "files ''image'' = Some upl"
    and "upload_filename upl = [] \<or> CHR ''.'' \<notin> set (upload_filename upl) \<or>
         (\<exists>pre ext. upload_filename upl = pre @ ''.'' @ ext \<and> CHR ''.'' \<notin> set ext \<and>
            lower ext \<notin> ALLOWED_EXTENSIONS)"
  shows "process_emotion env files wd = (Json (Message ''Invalid file'') 400, wd) \<and>
         status_code (fst (process_emotion env files wd)) = 400 \<and>
         analyze_calls (snd (process_emotion env files wd)) = analyze_calls wd"
proof -
  have bad: "upload_filename upl = [] \<or> \<not> allowed_file (upload_filename upl)"
    using assms(3) by (rule invalid_name_rejected)
  have "process_emotion_try env files wd = (Inr (Json (Message ''Invalid file'') 400), None, wd)"
    using assms(1,2) bad by (auto simp: process_emotion_try_def)
  then show ?thesis
    by (simp add: process_emotion_def cleanup_def status_code_def)
qed

text \<open>A disallowed extension after a second dot, a name without a dot, the empty name.\<close>

theorem invalid_upload_rejected_witness:
  "process_emotion ex_env [''image'' \<mapsto> \<lparr>upload_filename = ''notes.tar.exe''\<rparr>] logged_in =
     (Json (Message ''Invalid file'') 400, logged_in) \<and>
   process_emotion ex_env [''image'' \<mapsto> \<lparr>upload_filename = ''README''\<rparr>] logged_in =
     (Json (Message ''Invalid file'') 400, logged_in) \<and>
   process_emotion ex_env [''image'' \<mapsto> \<lparr>upload_filename = ''''\<rparr>] logged_in =
     (Json (Message ''Invalid file'') 400, logged_in)"
proof -
  have auth: "username (session logged_in) \<noteq> None"
    by (simp add: logged_in_def anonymous_def)
  have ext: "\<exists>pre ext. ''notes.tar.exe'' = pre @ ''.'' @ ext \<and> CHR ''.'' \<notin> set ext \<and>
               lower ext \<notin> ALLOWED_EXTENSIONS"
    by (rule exI [of _ "''notes.tar''"], rule exI [of _ "''exe''"])
       (simp add: lower_def lower_char_def ALLOWED_EXTENSIONS_def)
  show ?thesis
    using invalid_upload_rejected
            [where wd = logged_in and env = ex_env
               and files = "[''image'' \<mapsto> \<lparr>upload_filename = ''notes.tar.exe''\<rparr>]"
               and upl = "\<lparr>upload_filename = ''notes.tar.exe''\<rparr>"]
          invalid_upload_rejected
            [where wd = logged_in and env = ex_env
               and files = "[''image'' \<mapsto> \<lparr>upload_filename = ''README''\<rparr>]"
               and upl = "\<lparr>upload_filename = ''README''\<rparr>"]
          invalid_upload_rejected
            [where wd = logged_in and env = ex_env
               and files = "[''image'' \<mapsto> \<lparr>upload_filename = ''''\<rparr>]"
               and upl = "\<lparr>upload_filename = ''''\<rparr>"]
          auth ext
    by simp
qed

text \<open>As stated the claim fails: without a session the same upload is answered 401.\<close>

theorem invalid_upload_unauthenticated_counterexample:
  "process_emotion ex_env [''image'' \<mapsto> \<lparr>upload_filename = ''notes.tar.exe''\<rparr>] anonymous =
     (Json (Message ''Not authenticated'') 401, anonymous) \<and>
   status_code (fst (process_emotion ex_env [''image'' \<mapsto> \<lparr>upload_filename = ''notes.tar.exe''\<rparr>]
                       anonymous)) \<noteq> 400"
  by (simp add: process_emotion_def process_emotion_try_def anonymous_def cleanup_def
        status_code_def)

text \<open>Claim C6. As amended: without an established session the three JSON endpoints
  (process-emotion, get-history, clear-history) answer 401 with the message
  \<open>Not authenticated\<close> and leave the state as it was, whatever the request carries (for
  process-emotion: any files, also none or an invalid one). The two pages behind the
  session check, \<open>/index\<close> and \<open>/dashboards\<close>, redirect to the login page instead.\<close>

theorem unauthenticated_api_401:
  assumes "username (session wd) = None"
  shows "process_emotion env files wd = (Json (Message ''Not authenticated'') 401, wd) \<and>
         handle env (ProcessEmotion files) wd = (Json (Message ''Not authenticated'') 401, wd) \<and>
         handle env GetHistory wd = (Json (Message ''Not authenticated'') 401, wd) \<and>
         handle env ClearHistory wd = (Json (Message ''Not authenticated'') 401, wd) \<and>
         handle env Index wd = (Redirect ''login'', wd) \<and>
         handle env Dashboards wd = (Redirect ''login'', wd)"
  using assms
  by (simp add: process_emotion_def process_emotion_try_def cleanup_def on_session_def
        get_history_def clear_history_def index_def dashboards_def)

text \<open>No files at all, and a valid upload, both without a session.\<close>

theorem unauthenticated_api_401_witness:
  "process_emotion ex_env Map.empty anonymous = (Json (Message ''Not authenticated'') 401, anonymous) \<and>
   process_emotion ex_env ex_files anonymous = (Json (Message ''Not authenticated'') 401, anonymous) \<and>
   handle ex_env GetHistory anonymous = (Json (Message ''Not authenticated'') 401, anonymous) \<and>
   handle ex_env ClearHistory anonymous = (Json (Message ''Not authenticated'') 401, anonymous)"
proof -
  have anon: "username (session anonymous) = None"
    by (simp add: anonymous_def)
  show ?thesis
    using unauthenticated_api_401 [OF anon, of ex_env Map.empty]
          unauthenticated_api_401 [OF anon, of ex_env ex_files]
    by simp
qed

text \<open>As stated the claim fails: the pages behind the session check answer with a
  redirect.\<close>

theorem index_unauthenticated_counterexample:
  "handle ex_env Index anonymous = (Redirect ''login'', anonymous) \<and>
   status_code (fst (handle ex_env Index anonymous)) \<noteq> 401 \<and>
   handle ex_env Dashboards anonymous = (Redirect ''login'', anonymous) \<and>
   status_code (fst (handle ex_env Dashboards anonymous)) \<noteq> 401"
  by (simp add: on_session_def index_def dashboards_def anonymous_def status_code_def)

subsection \<open>The detection adapter\<close>

text \<open>Claim C10. As amended: \<open>recognize_emotion\<close> returns \<open>None\<close> exactly when the path is
  \<open>None\<close>. For a path that is not \<open>None\<close> it calls the analysis once, with
  \<open>enforce_detection\<close> off; when the analysis answers a non-empty list whose first element
  has a score for its dominant emotion, the result is built from that first element, and
  every result returned is built so; when the analysis raises, answers the empty list, or
  the score is missing, \<open>recognize_emotion\<close> raises and returns nothing.\<close>

theorem recognize_emotion_never_None:
  "(fst (recognize_emotion env path wd) = Inr None \<longleftrightarrow> path = None) \<and>
   (\<forall>p fd rest c.
      path = Some p \<and> deepface_analyze env (analyze_request_of p) = Inr (fd # rest) \<and>
      emotions fd (dominant_emotion fd) = Some c \<longrightarrow>
      fst (recognize_emotion env path wd) =
        Inr (Some \<lparr>box = region fd, label = dominant_emotion fd, result_confidence = c\<rparr>)) \<and>
   (\<forall>p res.
      path = Some p \<and> fst (recognize_emotion env path wd) = Inr (Some res) \<longrightarrow>
      (\<exists>fd rest. deepface_analyze env (analyze_request_of p) = Inr (fd # rest) \<and>
         emotions fd (dominant_emotion fd) = Some (result_confidence res) \<and>
         box res = region fd \<and> label res = dominant_emotion fd)) \<and>
   (\<forall>p x. path = Some p \<and> deepface_analyze env (analyze_request_of p) = Inl x \<longrightarrow>
      fst (recognize_emotion env path wd) = Inl x) \<and>
   (\<forall>p. path = Some p \<and> deepface_analyze env (analyze_request_of p) = Inr [] \<longrightarrow>
      fst (recognize_emotion env path wd) = Inl IndexError) \<and>
   (\<forall>p fd rest.
      path = Some p \<and> deepface_analyze env (analyze_request_of p) = Inr (fd # rest) \<and>
      emotions fd (dominant_emotion fd) = None \<longrightarrow>
      fst (recognize_emotion env path wd) = Inl (KeyError (dominant_emotion fd))) \<and>
   (\<forall>p. path = Some p \<longrightarrow>
      analyze_calls (snd (recognize_emotion env path wd)) =
        analyze_calls wd @ [analyze_request_of p] \<and>
      \<not> enforce_detection (analyze_request_of p))"
proof -
  have c1: "fst (recognize_emotion env path wd) = Inr None \<longleftrightarrow> path = None"
  proof (cases path)
    case None
    then show ?thesis
      by (simp add: recognize_emotion_def)
  next
    case (Some p)
    then show ?thesis
      by (simp add: recognize_emotion_not_None)
  qed
  have c2: "\<forall>p fd rest c.
      path = Some p \<and> deepface_analyze env (analyze_request_of p) = Inr (fd # rest) \<and>
      emotions fd (dominant_emotion fd) = Some c \<longrightarrow>
      fst (recognize_emotion env path wd) =
        Inr (Some \<lparr>box = region fd, label = dominant_emotion fd, result_confidence = c\<rparr>)"
    by (auto simp: recognize_emotion_def Let_def)
  have c3: "\<forall>p res.
      path = Some p \<and> fst (recognize_emotion env path wd) = Inr (Some res) \<longrightarrow>
      (\<exists>fd rest. deepface_analyze env (analyze_request_of p) = Inr (fd # rest) \<and>
         emotions fd (dominant_emotion fd) = Some (result_confidence res) \<and>
         box res = region fd \<and> label res = dominant_emotion fd)"
    using recognize_emotion_Some [of env _ wd] by blast
  have c4: "\<forall>p x. path = Some p \<and> deepface_analyze env (analyze_request_of p) = Inl x \<longrightarrow>
      fst (recognize_emotion env path wd) = Inl x"
    by (auto simp: recognize_emotion_def Let_def)
  have c5: "\<forall>p. path = Some p \<and> deepface_analyze env (analyze_request_of p) = Inr [] \<longrightarrow>
      fst (recognize_emotion env path wd) = Inl IndexError"
    by (auto simp: recognize_emotion_def Let_def)
  have c6: "\<forall>p fd rest.
      path = Some p \<and> deepface_analyze env (analyze_request_of p) = Inr (fd # rest) \<and>
      emotions fd (dominant_emotion fd) = None \<longrightarrow>
      fst (recognize_emotion env path wd) = Inl (KeyError (dominant_emotion fd))"
    by (auto simp: recognize_emotion_def Let_def)
  have c7: "\<forall>p. path = Some p \<longrightarrow>
      analyze_calls (snd (recognize_emotion env path wd)) =
        analyze_calls wd @ [analyze_request_of p] \<and>
      \<not> enforce_detection (analyze_request_of p)"
    by (auto simp: recognize_emotion_def Let_def analyze_request_of_def
        split: sum.splits list.splits option.splits)
  from c1 c2 c3 c4 c5 c6 c7 show ?thesis
    by (intro conjI)
qed

text \<open>An analysis with one face, the path \<open>None\<close>, and a picture without a face.\<close>

theorem recognize_emotion_never_None_witness:
  "fst (recognize_emotion ex_env (Some ''/tmp/a.jpg'') logged_in) =
     Inr (Some \<lparr>box = Region 40 30 120 120, label = ''happy'', result_confidence = 799 / 8\<rparr>) \<and>
   fst (recognize_emotion ex_env None logged_in) = Inr None \<and>
   fst (recognize_emotion landscape_env (Some ''/tmp/a.jpg'') logged_in) \<noteq> Inr None"
proof -
  have a: "deepface_analyze ex_env (analyze_request_of ''/tmp/a.jpg'') = Inr (happy_face # [])"
    by (simp add: ex_env_def)
  have b: "emotions happy_face (dominant_emotion happy_face) = Some (799 / 8)"
    by (simp add: happy_face_def)
  note t = recognize_emotion_never_None [of ex_env "Some ''/tmp/a.jpg''" logged_in]
  have "fst (recognize_emotion ex_env (Some ''/tmp/a.jpg'') logged_in) =
      Inr (Some \<lparr>box = region happy_face, label = dominant_emotion happy_face,
                  result_confidence = 799 / 8\<rparr>)"
    by (rule t [THEN conjunct2, THEN conjunct1, THEN spec, THEN spec, THEN spec, THEN spec,
                THEN mp])
       (rule conjI, rule refl, rule conjI, rule a, rule b)
  then have w1: "fst (recognize_emotion ex_env (Some ''/tmp/a.jpg'') logged_in) =
      Inr (Some \<lparr>box = Region 40 30 120 120, label = ''happy'', result_confidence = 799 / 8\<rparr>)"
    by (simp add: happy_face_def)
  have w2: "fst (recognize_emotion ex_env None logged_in) = Inr None"
    using recognize_emotion_never_None [of ex_env None logged_in, THEN conjunct1] by simp
  have "(fst (recognize_emotion landscape_env (Some ''/tmp/a.jpg'') logged_in) = Inr None) =
      (Some ''/tmp/a.jpg'' = (None :: string option))"
    using recognize_emotion_never_None [of landscape_env "Some ''/tmp/a.jpg''" logged_in]
    by (rule conjunct1)
  then have w3: "fst (recognize_emotion landscape_env (Some ''/tmp/a.jpg'') logged_in) \<noteq> Inr None"
    by simp
  show ?thesis
    using w1 w2 w3 by (intro conjI)
qed

text \<open>As stated the claim fails: when the analysis raises, or answers the empty list,
  there is no result.\<close>

theorem recognize_emotion_raises_counterexample:
  "fst (recognize_emotion corrupt_env (Some ''/tmp/a.jpg'') logged_in) =
     Inl (LibraryError ''Confirm that the file is an image'') \<and>
   fst (recognize_emotion (ex_env\<lparr>deepface_analyze := (\<lambda>rq. Inr [])\<rparr>) (Some ''/tmp/a.jpg'') logged_in) =
     Inl IndexError"
  by (simp add: recognize_emotion_def Let_def corrupt_env_def ex_env_def)

subsection \<open>The history across requests\<close>

lemma on_session_unchanged:
  "snd (h (session wd)) = session wd \<Longrightarrow> history_of (snd (on_session h wd)) = history_of wd"
  by (auto simp: on_session_def history_of_def split: prod.splits)

lemma login_not_accepted:
  "\<not> resets_history (Login method form) \<Longrightarrow> snd (login method form s) = s"
  by (auto simp: resets_history_def login_def Let_def)

text \<open>Claim C8. As amended: with an established session, get-history answers with the
  history of the session as it is, in order, and leaves the state unchanged. Every request
  other than clear-history, logout and a login with the accepted credentials leaves the
  history before it as a prefix of the history after it, with at most one entry more; only
  process-emotion adds one.\<close>

theorem history_append_only:
  "(username (session wd) \<noteq> None \<longrightarrow>
      handle env GetHistory wd = (Json (HistoryOf (history_of wd)) 200, wd)) \<and>
   (\<not> resets_history rq \<longrightarrow>
      (\<exists>new. history_of (snd (handle env rq wd)) = history_of wd @ new \<and> length new \<le> 1 \<and>
         (new \<noteq> [] \<longrightarrow> (\<exists>files. rq = ProcessEmotion files))))"
proof (intro conjI impI)
  assume "username (session wd) \<noteq> None"
  then show "handle env GetHistory wd = (Json (HistoryOf (history_of wd)) 200, wd)"
    by (simp add: on_session_def get_history_def history_of_def)
next
  assume keep: "\<not> resets_history rq"
  have same: "history_of (snd (handle env rq wd)) = history_of wd \<Longrightarrow>
      \<exists>new. history_of (snd (handle env rq wd)) = history_of wd @ new \<and> length new \<le> 1 \<and>
         (new \<noteq> [] \<longrightarrow> (\<exists>files. rq = ProcessEmotion files))"
    by (rule exI [of _ "[]"]) simp
  show "\<exists>new. history_of (snd (handle env rq wd)) = history_of wd @ new \<and> length new \<le> 1 \<and>
         (new \<noteq> [] \<longrightarrow> (\<exists>files. rq = ProcessEmotion files))"
  proof (cases rq)
    case Home
    then show ?thesis
      using same by (simp add: on_session_unchanged home_def)
  next
    case (Login meth fields)
    then show ?thesis
      using same keep by (simp add: on_session_unchanged login_not_accepted)
  next
    case Logout
    then show ?thesis
      using keep by (simp add: resets_history_def)
  next
    case Index
    then show ?thesis
      using same by (simp add: on_session_unchanged index_def)
  next
    case Dashboards
    then show ?thesis
      using same by (simp add: on_session_unchanged dashboards_def)
  next
    case (ProcessEmotion files)
    have "history_of (snd (process_emotion env files wd)) = history_of wd \<or>
        (\<exists>ent. history_of (snd (process_emotion env files wd)) = history_of wd @ [ent])"
      using process_emotion_cases [of env files wd] by blast
    then show ?thesis
    proof
      assume "history_of (snd (process_emotion env files wd)) = history_of wd"
      then show ?thesis
        using same ProcessEmotion by simp
    next
      assume "\<exists>ent. history_of (snd (process_emotion env files wd)) = history_of wd @ [ent]"
      then obtain ent where
        "history_of (snd (process_emotion env files wd)) = history_of wd @ [ent]" ..
      then show ?thesis
        using ProcessEmotion by (intro exI [of _ "[ent]"]) simp
    qed
  next
    case GetHistory
    then show ?thesis
      using same by (simp add: on_session_unchanged get_history_def)
  next
    case ClearHistory
    then show ?thesis
      using keep by (simp add: resets_history_def)
  qed
qed

lemma first_detection:
  "history_of (snd (handle ex_env (ProcessEmotion ex_files) logged_in)) =
     [\<lparr>emotion = ''happy'', confidence = 799 / 8, filename = ''happy_20240131_235959''\<rparr>] \<and>
   username (session (snd (handle ex_env (ProcessEmotion ex_files) logged_in))) = Some ''user''"
  by (simp add: stage_defs example_defs upload_defs history_of_def)

lemma second_detection:
  "history_of (snd (handle landscape_env (ProcessEmotion ex_files)
      (snd (handle ex_env (ProcessEmotion ex_files) logged_in)))) =
     [\<lparr>emotion = ''happy'', confidence = 799 / 8, filename = ''happy_20240131_235959''\<rparr>,
      \<lparr>emotion = ''neutral'', confidence = 105 / 2, filename = ''neutral_20240131_235959''\<rparr>] \<and>
   username (session (snd (handle landscape_env (ProcessEmotion ex_files)
      (snd (handle ex_env (ProcessEmotion ex_files) logged_in))))) = Some ''user''"
  by (simp add: stage_defs example_defs upload_defs history_of_def)

text \<open>Two detections, one after the other; a page request in between changes nothing.\<close>

theorem history_append_only_witness:
  "fst (handle ex_env GetHistory
         (snd (handle landscape_env (ProcessEmotion ex_files)
                (snd (handle ex_env (ProcessEmotion ex_files) logged_in))))) =
     Json (HistoryOf
       [\<lparr>emotion = ''happy'', confidence = 799 / 8, filename = ''happy_20240131_235959''\<rparr>,
        \<lparr>emotion = ''neutral'', confidence = 105 / 2, filename = ''neutral_20240131_235959''\<rparr>]) 200 \<and>
   \<not> resets_history (ProcessEmotion ex_files) \<and>
   history_of (snd (handle ex_env Index (snd (handle ex_env (ProcessEmotion ex_files) logged_in)))) =
     [\<lparr>emotion = ''happy'', confidence = 799 / 8, filename = ''happy_20240131_235959''\<rparr>]"
proof -
  let ?w1 = "snd (handle ex_env (ProcessEmotion ex_files) logged_in)"
  let ?w2 = "snd (handle landscape_env (ProcessEmotion ex_files) ?w1)"
  have k: "\<not> resets_history (ProcessEmotion ex_files)" "\<not> resets_history Index"
    by (simp_all add: resets_history_def)
  have "handle ex_env GetHistory ?w2 = (Json (HistoryOf (history_of ?w2)) 200, ?w2)"
    using history_append_only [of ?w2 ex_env Index, THEN conjunct1] second_detection
    by simp
  then have g: "fst (handle ex_env GetHistory ?w2) = Json (HistoryOf (history_of ?w2)) 200"
    by simp
  obtain new where n: "history_of (snd (handle ex_env Index ?w1)) = history_of ?w1 @ new"
      "new \<noteq> [] \<longrightarrow> (\<exists>files. Index = ProcessEmotion files)"
    using history_append_only [of ?w1 ex_env Index, THEN conjunct2] k(2) by blast
  from n(2) have "new = []"
    by auto
  then show ?thesis
    using g n(1) k(1) first_detection second_detection by simp
qed

text \<open>As stated the claim fails: a second login, and logout, drop the entries.\<close>

theorem login_resets_history_counterexample:
  "history_of (snd (handle ex_env (ProcessEmotion ex_files) logged_in)) =
     [\<lparr>emotion = ''happy'', confidence = 799 / 8, filename = ''happy_20240131_235959''\<rparr>] \<and>
   history_of (snd (handle ex_env
        (Login POST [''username'' \<mapsto> ''user'', ''password'' \<mapsto> ''54321''])
        (snd (handle ex_env (ProcessEmotion ex_files) logged_in)))) = [] \<and>
   history_of (snd (handle ex_env Logout
        (snd (handle ex_env (ProcessEmotion ex_files) logged_in)))) = []"
  using first_detection
  by (simp add: on_session_def login_def logout_def dict_get_def history_of_def Let_def)

subsection \<open>The mood prompt\<close>

lemma round_half_even_close: "\<bar>of_int (round_half_even q) - q\<bar> \<le> 1 / 2"
proof -
  have "of_int \<lfloor>q\<rfloor> \<le> q" and "q < of_int \<lfloor>q\<rfloor> + 1"
    by linarith+
  then show ?thesis
    unfolding round_half_even_def Let_def by (auto simp: abs_if; linarith)
qed

lemma round_half_even_nonneg: "0 \<le> q \<Longrightarrow> 0 \<le> round_half_even q"
  unfolding round_half_even_def Let_def by (auto simp: abs_if; linarith)

lemma tenths_close: "\<bar>of_nat (tenths c) / 10 - \<bar>c\<bar>\<bar> \<le> 1 / 20"
proof -
  have "0 \<le> round_half_even (\<bar>c\<bar> * 10)"
    by (rule round_half_even_nonneg) simp
  then have "(of_nat (tenths c) :: rat) = of_int (round_half_even (\<bar>c\<bar> * 10))"
    by (simp add: tenths_def)
  moreover have "\<bar>of_int (round_half_even (\<bar>c\<bar> * 10)) - \<bar>c\<bar> * 10\<bar> \<le> 1 / 2"
    by (rule round_half_even_close)
  ultimately show ?thesis
    by (simp add: abs_if split: if_splits; linarith)
qed

lemma digit_char_code:
  assumes "n < 10"
  shows "of_char (digit_char n) = (48 :: nat) + n" and "digit_char n \<in> set ''0123456789''"
  using assms by (auto simp: digit_char_def nth_Cons split: nat.splits)

lemma digits_value_snoc:
  "digits_value (ds @ [d]) = 10 * digits_value ds + (of_char d - 48)"
  by (simp add: digits_value_def)

lemma string_of_nat_digits:
  "set (string_of_nat n) \<subseteq> set ''0123456789'' \<and> digits_value (string_of_nat n) = n \<and>
   string_of_nat n \<noteq> []"
proof (induction n rule: string_of_nat.induct)
  case (1 n)
  show ?case
  proof (cases "n < 10")
    case True
    then show ?thesis
      using digit_char_code [of n] digits_value_snoc [of "[]" "digit_char n"]
      by (subst (1 2 3) string_of_nat.simps) (simp add: digits_value_def)
  next
    case False
    have m: "n mod 10 < 10"
      by simp
    show ?thesis
      using False "1.IH" digit_char_code [OF m]
      by (subst (1 2 3) string_of_nat.simps) (simp add: digits_value_snoc)
  qed
qed

text \<open>The rendering is a sign, digits, a point and one digit; read as a number of
  tenths, the digits are the value rounded to tenths.\<close>

lemma fmt_1f_shape:
  "\<exists>ds d. fmt_1f c = (if c < 0 then ''-'' else '''') @ ds @ ''.'' @ [d] \<and> ds \<noteq> [] \<and>
     set (ds @ [d]) \<subseteq> set ''0123456789'' \<and> digits_value (ds @ [d]) = tenths c"
proof -
  let ?ds = "string_of_nat (tenths c div 10)" and ?d = "digit_char (tenths c mod 10)"
  have m: "tenths c mod 10 < 10"
    by simp
  have "fmt_1f c = (if c < 0 then ''-'' else '''') @ ?ds @ ''.'' @ [?d]"
    by (simp add: fmt_1f_def)
  moreover have "?ds \<noteq> []" "set ?ds \<subseteq> set ''0123456789''" "digits_value ?ds = tenths c div 10"
    using string_of_nat_digits [of "tenths c div 10"] by simp_all
  moreover have "?d \<in> set ''0123456789''" "of_char ?d = (48 :: nat) + tenths c mod 10"
    using digit_char_code [OF m] by simp_all
  ultimately show ?thesis
    by (intro exI [of _ ?ds] exI [of _ ?d]) (simp add: digits_value_snoc)
qed

text \<open>Claim C9. For every label and confidence, \<open>generate_mood_content\<close> makes exactly
  one call of the chat adapter, with the model \<open>gemma3:1b\<close>, the temperature 0.7, the
  system message and one user message; its result is what the adapter answered (or the
  exception it raised). The user message names the emotion, states the confidence rendered
  with one decimal (digits, a point, one digit, the number of tenths being the confidence
  rounded to tenths), asks for a short description of the mood and a 3-song playlist, and
  ends by forbidding final questions or suggestions.\<close>

theorem generate_mood_content_request:
  "chat_calls (snd (generate_mood_content env emotion_label conf wd)) =
     chat_calls wd @ [mood_request emotion_label conf] \<and>
   fst (generate_mood_content env emotion_label conf wd) =
     ollama_chat env (mood_request emotion_label conf) \<and>
   model (mood_request emotion_label conf) = ''gemma3:1b'' \<and>
   temperature (mood_request emotion_label conf) = 7 / 10 \<and>
   messages (mood_request emotion_label conf) =
     [(''system'', ''You are a professional music curator and psychologist.''),
      (''user'', mood_prompt emotion_label conf)] \<and>
   prefix (''The detected emotion is '' @ emotion_label @ ''. Suggest a 3-song playlist'')
     (mood_prompt emotion_label conf) \<and>
   sublist (''Tonight's vibe is '' @ emotion_label @ ''. I'm '' @ fmt_1f conf @
            ''% sure about it... (here give a short description of the mood)'')
     (mood_prompt emotion_label conf) \<and>
   suffix ''No final questions or suggestions.'' (mood_prompt emotion_label conf) \<and>
   (\<exists>ds d. fmt_1f conf = (if conf < 0 then ''-'' else '''') @ ds @ ''.'' @ [d] \<and> ds \<noteq> [] \<and>
      set (ds @ [d]) \<subseteq> set ''0123456789'' \<and> digits_value (ds @ [d]) = tenths conf) \<and>
   \<bar>of_nat (tenths conf) / 10 - \<bar>conf\<bar>\<bar> \<le> 1 / 20"
proof -
  have call: "chat_calls (snd (generate_mood_content env emotion_label conf wd)) =
      chat_calls wd @ [mood_request emotion_label conf]"
    "fst (generate_mood_content env emotion_label conf wd) =
      ollama_chat env (mood_request emotion_label conf)"
    by (simp_all add: generate_mood_content_def)
  have rq: "model (mood_request emotion_label conf) = ''gemma3:1b''"
    "temperature (mood_request emotion_label conf) = 7 / 10"
    "messages (mood_request emotion_label conf) =
      [(''system'', ''You are a professional music curator and psychologist.''),
       (''user'', mood_prompt emotion_label conf)]"
    by (simp_all add: mood_request_def)
  have p1: "prefix (''The detected emotion is '' @ emotion_label @ ''. Suggest a 3-song playlist'')
      (mood_prompt emotion_label conf)"
    unfolding prefix_def mood_prompt_def
    by (rule exI [of _ "'' that matches it. Start by saying: 'Tonight's vibe is '' @
          emotion_label @ ''. I'm '' @ fmt_1f conf @
          ''% sure about it... (here give a short description of the mood)... For that reason, here are some songs to match the mood.' and then give the playlist you suggest. No final questions or suggestions.''"])
       simp
  have p2: "sublist (''Tonight's vibe is '' @ emotion_label @ ''. I'm '' @ fmt_1f conf @
            ''% sure about it... (here give a short description of the mood)'')
      (mood_prompt emotion_label conf)"
    unfolding sublist_def mood_prompt_def
    by (rule exI [of _ "''The detected emotion is '' @ emotion_label @
          ''. Suggest a 3-song playlist that matches it. Start by saying: '' @ [CHR 0x27]"],
        rule exI [of _ "''... For that reason, here are some songs to match the mood.' and then give the playlist you suggest. No final questions or suggestions.''"])
       simp
  have p3: "suffix ''No final questions or suggestions.'' (mood_prompt emotion_label conf)"
    unfolding suffix_def mood_prompt_def
    by (rule exI [of _ "''The detected emotion is '' @ emotion_label @
          ''. Suggest a 3-song playlist that matches it. Start by saying: 'Tonight's vibe is '' @
          emotion_label @ ''. I'm '' @ fmt_1f conf @
          ''% sure about it... (here give a short description of the mood)... For that reason, here are some songs to match the mood.' and then give the playlist you suggest. ''"])
       simp
  from call rq p1 p2 p3 fmt_1f_shape [of conf] tenths_close [of conf] show ?thesis
    by (intro conjI)
qed

text \<open>The request made for the label \<open>happy\<close> at confidence 99.875.\<close>

theorem generate_mood_content_request_witness:
  "chat_calls (snd (generate_mood_content ex_env ''happy'' (799 / 8) logged_in)) =
     [mood_request ''happy'' (799 / 8)] \<and>
   fst (generate_mood_content ex_env ''happy'' (799 / 8) logged_in) = Inr ''Tonight's vibe is happy.'' \<and>
   mood_prompt ''happy'' (799 / 8) =
     ''The detected emotion is happy. Suggest a 3-song playlist that matches it. Start by saying: 'Tonight's vibe is happy. I'm 99.9% sure about it... (here give a short description of the mood)... For that reason, here are some songs to match the mood.' and then give the playlist you suggest. No final questions or suggestions.''"
proof -
  have f: "fmt_1f (799 / 8) = ''99.9''"
    by code_simp
  have c: "chat_calls logged_in = []" "ollama_chat ex_env (mood_request ''happy'' (799 / 8)) =
      Inr ''Tonight's vibe is happy.''"
    by (simp_all add: logged_in_def anonymous_def ex_env_def)
  show ?thesis
    using generate_mood_content_request [of ex_env "''happy''" "799 / 8" logged_in] c
    by (simp add: mood_prompt_def f)
qed

end
